theory Spec2Isabelle
  imports Complex_Main "HOL-Library.Multiset"
begin

section \<open>JavaScript values used by the game\<close>

text \<open>
  Numbers of the game (funds, users, percentages, eras, turn counters, slot ids and the
  INTEGER deltas of the oracle schema) are modelled as unbounded integers: every number the
  program starts from is an integer and its sums and comparisons keep it one. This is the
  arithmetic of doubles as long as the values are finite and inside the safe-integer range.
  What lies outside is modelled apart: the product with \<^verbatim>\<open>0.1\<close>, which
  rounds, right below; the merge of a turn on doubles with their infinities and
  \<^verbatim>\<open>NaN\<close>, further down.
\<close>

text \<open>
  \<^verbatim>\<open>x || d\<close> on an optional number: the default is taken when the property is
  absent and also when it is 0, the falsy number.
\<close>

fun js_or :: "int option \<Rightarrow> int \<Rightarrow> int" where
  "js_or None d = d"
| "js_or (Some x) d = (if x = 0 then d else x)"

text \<open>Template literals print numbers in decimal.\<close>

function show_nat :: "nat \<Rightarrow> string" where
  "show_nat n =
     (if n < 10 then [''0123456789'' ! n]
      else show_nat (n div 10) @ [''0123456789'' ! (n mod 10)])"
  by pat_completeness auto
termination
  by (relation "measure (\<lambda>n. n)") auto

definition show_int :: "int \<Rightarrow> string" where
  "show_int i = (if i < 0 then CHR ''-'' # show_nat (nat (- i)) else show_nat (nat i))"

text \<open>
  \<^verbatim>\<open>Math.floor(u * 0.1)\<close> for an integer \<open>u\<close>. The double nearest to a
  tenth is 3602879701896397 / 2^55, so the exact product is the integer
  \<open>u * 3602879701896397\<close> over 2^55; the multiplication rounds it to the nearest
  double, that is to 53 significant bits with ties going to the even neighbour, and the
  floor of the double is taken exactly. This is the product of doubles for every integer
  that is a double itself and short of overflow: the product is 0 or at least a tenth in
  size, where doubles have 53 significant bits.
\<close>

function bit_length :: "nat \<Rightarrow> nat" where
  "bit_length n = (if n = 0 then 0 else Suc (bit_length (n div 2)))"
  by pat_completeness auto
termination
  by (relation "measure (\<lambda>n. n)") auto

declare bit_length.simps [simp del]

definition round_to_53_bits :: "nat \<Rightarrow> nat" where
  "round_to_53_bits m =
     (if m < 2 ^ 53 then m
      else (let s = bit_length m - 53; q = m div 2 ^ s; r = m mod 2 ^ s
            in (if 2 ^ s < 2 * r \<or> (2 * r = 2 ^ s \<and> odd q) then q + 1 else q) * 2 ^ s))"

definition floor_times_tenth :: "int \<Rightarrow> int" where
  "floor_times_tenth u =
     (sgn u * int (round_to_53_bits (nat \<bar>u\<bar> * 3602879701896397))) div 2 ^ 55"

text \<open>
  An array position either holds nothing at all (a hole, left behind by a write past the
  end), holds \<^verbatim>\<open>undefined\<close> or \<^verbatim>\<open>null\<close>, or holds a value.
  \<^verbatim>\<open>forEach\<close> skips holes but visits the other two; the spread
  \<^verbatim>\<open>[...xs]\<close> copies a hole as \<^verbatim>\<open>undefined\<close>.
\<close>

datatype 'a js_elem = Hole | Nullish | Item 'a

type_synonym 'a js_array = "'a js_elem list"

fun spread_elem :: "'a js_elem \<Rightarrow> 'a js_elem" where
  "spread_elem Hole = Nullish"
| "spread_elem Nullish = Nullish"
| "spread_elem (Item v) = Item v"

definition spread :: "'a js_array \<Rightarrow> 'a js_array" where
  "spread xs = map spread_elem xs"

text \<open>
  \<^verbatim>\<open>xs[i] = v\<close>: inside the array the position is overwritten; past the end
  the array grows, with holes in between; a negative index is no array index, the value is
  stored under a property name that no iteration, spread, length or serialisation sees, and
  the elements stay as they are (as for an index beyond the largest array index, which no
  grid of the game comes near).
\<close>

definition array_assign :: "'a js_array \<Rightarrow> int \<Rightarrow> 'a \<Rightarrow> 'a js_array" where
  "array_assign xs i v =
     (if i < 0 then xs
      else if nat i < length xs then xs[nat i := Item v]
      else xs @ replicate (nat i - length xs) Hole @ [Item v])"

section \<open>types\<close>

datatype LanguageCode = En | Fa | Ru | Zh

record GameSettings =
  projectName :: string
  ticker :: string
  founderName :: string
  language :: LanguageCode

record GameStats =
  funds :: int
  users :: int
  security :: int
  hype :: int
  techLevel :: int
  decentralization :: int
  era :: int

text \<open>\<^verbatim>\<open>Partial<GameStats>\<close>: every field may be absent.\<close>

record PartialGameStats =
  pFunds :: "int option"
  pUsers :: "int option"
  pSecurity :: "int option"
  pHype :: "int option"
  pTechLevel :: "int option"
  pDecentralization :: "int option"
  pEra :: "int option"

definition no_stats :: PartialGameStats where
  "no_stats = \<lparr>pFunds = None, pUsers = None, pSecurity = None, pHype = None,
     pTechLevel = None, pDecentralization = None, pEra = None\<rparr>"

datatype EventKind = Narrative | Choice | Alert | Success | Failure

record GameEvent =
  event_id :: string
  turn :: int
  narrative :: string
  choices :: "string list option"
  kind :: EventKind

datatype ModuleType = Miner | Validator | Rpc | Firewall

fun type_name :: "ModuleType \<Rightarrow> string" where
  "type_name Miner = ''miner''"
| "type_name Validator = ''validator''"
| "type_name Rpc = ''rpc''"
| "type_name Firewall = ''firewall''"

text \<open>\<^verbatim>\<open>Omit<InfrastructureModule, 'id'>\<close>, and the module with its id.\<close>

record ModuleDef =
  moduleType :: ModuleType
  moduleName :: string
  cost :: int
  maintenance :: int
  description :: string
  statsEffect :: PartialGameStats

record InfrastructureModule = ModuleDef +
  moduleId :: string

record GridSlot =
  slot_id :: int
  module :: "InfrastructureModule option"

type_synonym Grid = "GridSlot js_array"

text \<open>
  The fields of a game state other than the grid; a game state adds the grid, a
  serialised save adds the grid if the save has one.
\<close>

record GameCore =
  isStarted :: bool
  isLoading :: bool
  turnCount :: int
  settings :: GameSettings
  stats :: GameStats
  history :: "GameEvent list"
  gameOver :: bool
  gameWon :: bool
  lastSaved :: "string option"

record GameState = GameCore +
  infrastructure :: Grid

record SavedGame = GameCore +
  saved_infrastructure :: "Grid option"

text \<open>
  The oracle's answer at its declared type. \<^verbatim>\<open>event_type\<close> is kept as the
  string the program compares with \<^verbatim>\<open>===\<close>.
\<close>

record StatsUpdate =
  funds_change :: "int option"
  users_change :: "int option"
  security_change :: "int option"
  hype_change :: "int option"
  tech_level_change :: "int option"
  decentralization_change :: "int option"

text \<open>The update \<^verbatim>\<open>{}\<close>, with no change at all.\<close>

definition no_update :: StatsUpdate where
  "no_update = \<lparr>funds_change = None, users_change = None, security_change = None,
     hype_change = None, tech_level_change = None, decentralization_change = None\<rparr>"

record GeminiResponse =
  response_narrative :: string
  response_choices :: "string list"
  response_stats_update :: StatsUpdate
  response_event_type :: string

section \<open>App: constants\<close>

definition INITIAL_STATS :: GameStats where
  "INITIAL_STATS = \<lparr>funds = 10000, users = 1, security = 50, hype = 10, techLevel = 10,
     decentralization = 0, era = 1\<rparr>"

definition INITIAL_GRID :: Grid where
  "INITIAL_GRID = map (\<lambda>i. Item \<lparr>slot_id = int i, module = None\<rparr>) [0..<12]"

fun AVAILABLE_MODULES :: "ModuleType \<Rightarrow> ModuleDef" where
  "AVAILABLE_MODULES Miner =
     \<lparr>moduleType = Miner, moduleName = ''ASIC Miner X1'', cost = 1500, maintenance = 100,
      description = ''Generates funds via PoW.'',
      statsEffect = no_stats\<lparr>pFunds := Some 500, pDecentralization := Some (- 2)\<rparr>\<rparr>"
| "AVAILABLE_MODULES Validator =
     \<lparr>moduleType = Validator, moduleName = ''Validator Node'', cost = 2000, maintenance = 50,
      description = ''Secures transactions.'',
      statsEffect = no_stats\<lparr>pSecurity := Some 5, pDecentralization := Some 2\<rparr>\<rparr>"
| "AVAILABLE_MODULES Rpc =
     \<lparr>moduleType = Rpc, moduleName = ''RPC Cluster'', cost = 3000, maintenance = 200,
      description = ''Boosts network speed.'',
      statsEffect = no_stats\<lparr>pHype := Some 4, pTechLevel := Some 2\<rparr>\<rparr>"
| "AVAILABLE_MODULES Firewall =
     \<lparr>moduleType = Firewall, moduleName = ''Quantum Firewall'', cost = 5000,
      maintenance = 300, description = ''Hardened security layer.'',
      statsEffect = no_stats\<lparr>pSecurity := Some 10\<rparr>\<rparr>"

section \<open>geminiService\<close>

datatype error = TypeError | Game_not_initialized | API_Key_missing | Session_failure

text \<open>The value \<^verbatim>\<open>JSON.parse\<close> returns.\<close>

datatype json =
    JNull
  | JBool bool
  | JNumber int
  | JString string
  | JArray "json list"
  | JObject "(string \<times> json) list"

text \<open>
  \<^verbatim>\<open>RESPONSE_SCHEMA\<close>: an object whose four properties are all required; the
  narrative is a string, the choices are an array of strings, the stats update is an object
  whose six known properties are integers where present, the event type is one of five
  strings.
\<close>

fun is_string :: "json \<Rightarrow> bool" where
  "is_string (JString s) = True"
| "is_string j = False"

fun is_integer_or_absent :: "json option \<Rightarrow> bool" where
  "is_integer_or_absent None = True"
| "is_integer_or_absent (Some (JNumber n)) = True"
| "is_integer_or_absent (Some j) = False"

definition stats_update_properties :: "string list" where
  "stats_update_properties = [''funds_change'', ''users_change'', ''security_change'',
     ''hype_change'', ''tech_level_change'', ''decentralization_change'']"

definition event_type_enum :: "string list" where
  "event_type_enum = [''normal'', ''crisis'', ''opportunity'', ''game_over'', ''victory'']"

fun conforms_narrative :: "json option \<Rightarrow> bool" where
  "conforms_narrative (Some (JString s)) = True"
| "conforms_narrative j = False"

fun conforms_choices :: "json option \<Rightarrow> bool" where
  "conforms_choices (Some (JArray xs)) = list_all is_string xs"
| "conforms_choices j = False"

fun conforms_stats_update :: "json option \<Rightarrow> bool" where
  "conforms_stats_update (Some (JObject kvs)) =
     list_all (\<lambda>k. is_integer_or_absent (map_of kvs k)) stats_update_properties"
| "conforms_stats_update j = False"

fun conforms_event_type :: "json option \<Rightarrow> bool" where
  "conforms_event_type (Some (JString s)) = List.member event_type_enum s"
| "conforms_event_type j = False"

fun RESPONSE_SCHEMA :: "json \<Rightarrow> bool" where
  "RESPONSE_SCHEMA (JObject kvs) =
     (conforms_narrative (map_of kvs ''narrative'')
      \<and> conforms_choices (map_of kvs ''choices'')
      \<and> conforms_stats_update (map_of kvs ''stats_update'')
      \<and> conforms_event_type (map_of kvs ''event_type''))"
| "RESPONSE_SCHEMA j = False"

text \<open>Reading a property of a parsed value; only an object has any.\<close>

fun property :: "json \<Rightarrow> string \<Rightarrow> json option" where
  "property (JObject kvs) k = map_of kvs k"
| "property j k = None"

text \<open>
  The summary of the installed hardware for the prompt:
  \<^verbatim>\<open>filter(slot => slot.module).map(slot => slot.module?.name).join(", ")\<close>, with a
  default when the joined text is empty. \<^verbatim>\<open>filter\<close> skips holes and throws on a
  position holding \<^verbatim>\<open>undefined\<close> or \<^verbatim>\<open>null\<close>.
\<close>

fun installed_names :: "Grid \<Rightarrow> error + string list" where
  "installed_names [] = Inr []"
| "installed_names (Hole # g) = installed_names g"
| "installed_names (Nullish # g) = Inl TypeError"
| "installed_names (Item slot # g) =
     (case installed_names g of
        Inl e \<Rightarrow> Inl e
      | Inr ns \<Rightarrow>
          (case module slot of None \<Rightarrow> Inr ns | Some m \<Rightarrow> Inr (moduleName m # ns)))"

fun join :: "string \<Rightarrow> string list \<Rightarrow> string" where
  "join sep [] = []"
| "join sep [x] = x"
| "join sep (x # y # xs) = x @ sep @ join sep (y # xs)"

definition hardwareSummary :: "Grid \<Rightarrow> error + string" where
  "hardwareSummary g =
     (case installed_names g of
        Inl e \<Rightarrow> Inl e
      | Inr ns \<Rightarrow>
          Inr (if join '', '' ns = [] then ''No hardware installed'' else join '', '' ns))"

text \<open>
  What the oracle does with one message: \<^verbatim>\<open>sendMessage\<close> rejects, or the result
  has no text, or \<^verbatim>\<open>JSON.parse\<close> throws on the text, or it returns a value.
\<close>

datatype oracle_reply = Send_rejected | No_text | Text_not_JSON | Text_JSON json

definition fallback :: json where
  "fallback = JObject
     [(''narrative'', JString ''Connection lost. The blockchain is congested. Try again.''),
      (''choices'', JArray [JString ''Retry'']),
      (''stats_update'', JObject []),
      (''event_type'', JString ''normal'')]"

text \<open>
  \<^verbatim>\<open>processTurn\<close>. The first argument says whether \<^verbatim>\<open>chatSession\<close> is
  set. The session check and the hardware summary come before the \<^verbatim>\<open>try\<close>, so
  what they throw leaves the function; inside it every failure becomes the fallback. The
  cast \<^verbatim>\<open>as GeminiResponse\<close> checks nothing: the parsed value is returned as it
  is. The text of the prompt only reaches the oracle, whose reply is an argument here.
\<close>

definition processTurn :: "bool \<Rightarrow> Grid \<Rightarrow> oracle_reply \<Rightarrow> error + json" where
  "processTurn chatSession infra reply =
     (if \<not> chatSession then Inl Game_not_initialized
      else case hardwareSummary infra of
        Inl e \<Rightarrow> Inl e
      | Inr summary \<Rightarrow>
          (case reply of
             Send_rejected \<Rightarrow> Inr fallback
           | No_text \<Rightarrow> Inr fallback
           | Text_not_JSON \<Rightarrow> Inr fallback
           | Text_JSON v \<Rightarrow> Inr v))"

text \<open>
  \<^verbatim>\<open>restoreSession\<close>. The second argument says whether creating the chat session
  succeeds. A failure of the restoration prompt itself is caught and only logged.
\<close>

definition restoreSession :: "string \<Rightarrow> bool \<Rightarrow> Grid \<Rightarrow> error + unit" where
  "restoreSession apiKey session_created infra =
     (if apiKey = [] then Inl API_Key_missing
      else if \<not> session_created then Inl Session_failure
      else case hardwareSummary infra of Inl e \<Rightarrow> Inl e | Inr summary \<Rightarrow> Inr ())"

section \<open>App\<close>

text \<open>
  The state of the component: its state variables, the saved game under
  \<^verbatim>\<open>STORAGE_KEY\<close> (absent, a text that does not parse, or a record) and the
  alerts shown so far. A record is taken at the declared type of a game state, except that
  it may lack the infrastructure.
\<close>

datatype saved_item = Unparsable | Saved "SavedGame"

record App =
  setupMode :: bool
  userApiKey :: string
  app_settings :: GameSettings
  gameState :: GameState
  saveFound :: bool
  storage :: "saved_item option"
  alerts :: "string list"

text \<open>The game state the component starts with.\<close>

definition initial_gameState :: GameState where
  "initial_gameState =
     \<lparr>isStarted = False, isLoading = False, turnCount = 0,
      settings = \<lparr>projectName = ''Bitcoin'', ticker = ''BTC'', founderName = ''Satoshi'',
                  language = En\<rparr>,
      stats = INITIAL_STATS, history = [], gameOver = False, gameWon = False,
      lastSaved = None, infrastructure = INITIAL_GRID\<rparr>"

text \<open>
  The component once it is mounted, given the saved game the browser's storage holds and
  no stored API key.
\<close>

definition initial_App :: "saved_item option \<Rightarrow> App" where
  "initial_App saved =
     \<lparr>setupMode = True, userApiKey = [],
      app_settings = \<lparr>projectName = [], ticker = [], founderName = [], language = Fa\<rparr>,
      gameState = initial_gameState, saveFound = (saved \<noteq> None), storage = saved,
      alerts = []\<rparr>"

definition getEffectiveApiKey :: "App \<Rightarrow> string" where
  "getEffectiveApiKey app = userApiKey app"

subsection \<open>handleLoadGame\<close>

definition load_failed :: "App \<Rightarrow> App" where
  "load_failed app = app\<lparr>
     alerts := alerts app @ [''Save file corrupted or API Key invalid. Starting fresh.''],
     storage := None, saveFound := False, setupMode := True\<rparr>"

definition loaded_state :: "SavedGame \<Rightarrow> GameState" where
  "loaded_state parsed =
     \<lparr>isStarted = isStarted parsed, isLoading = True, turnCount = turnCount parsed,
      settings = settings parsed, stats = stats parsed, history = history parsed,
      gameOver = gameOver parsed, gameWon = gameWon parsed, lastSaved = lastSaved parsed,
      infrastructure =
        (case saved_infrastructure parsed of None \<Rightarrow> INITIAL_GRID | Some g \<Rightarrow> g)\<rparr>"

text \<open>The second argument says whether creating the chat session succeeds.\<close>

definition handleLoadGame :: "App \<Rightarrow> bool \<Rightarrow> App" where
  "handleLoadGame app session_created =
     (case storage app of
        None \<Rightarrow> app
      | Some saved \<Rightarrow>
          if getEffectiveApiKey app = []
          then app\<lparr>alerts := alerts app @ [''Please enter a Google Gemini API Key first.'']\<rparr>
          else (case saved of
             Unparsable \<Rightarrow> load_failed (app\<lparr>setupMode := False\<rparr>)
           | Saved parsed \<Rightarrow>
               (let app1 = app\<lparr>setupMode := False, app_settings := settings parsed,
                                gameState := loaded_state parsed\<rparr>
                in case restoreSession (getEffectiveApiKey app) session_created
                          (infrastructure (loaded_state parsed)) of
                     Inl e \<Rightarrow> load_failed app1
                   | Inr u \<Rightarrow>
                       app1\<lparr>gameState := (loaded_state parsed)\<lparr>isLoading := False\<rparr>\<rparr>)))"

subsection \<open>handleStartGame\<close>

definition startingStats :: "GameStats \<Rightarrow> int option \<Rightarrow> bool \<Rightarrow> GameStats" where
  "startingStats cur eraOverride keepStats =
     (if keepStats
      then cur\<lparr>era := js_or eraOverride 1, hype := 50,
               users := floor_times_tenth (users cur),
               funds := funds cur, security := 50, techLevel := 20\<rparr>
      else INITIAL_STATS\<lparr>era := js_or eraOverride 1\<rparr>)"

text \<open>
  The state while \<^verbatim>\<open>initializeGame\<close> is awaited, after the two synchronous
  updates.
\<close>

definition handleStartGame_pending :: "App \<Rightarrow> int option \<Rightarrow> bool \<Rightarrow> App" where
  "handleStartGame_pending app eraOverride keepStats =
     (let prev = gameState app
      in app\<lparr>setupMode := False,
              gameState := prev\<lparr>
                isStarted := True, isLoading := True,
                stats := startingStats (stats prev) eraOverride keepStats,
                settings := app_settings app,
                history := (if keepStats then history prev else []),
                gameOver := False, gameWon := False,
                infrastructure := (if keepStats then infrastructure prev else INITIAL_GRID)\<rparr>\<rparr>)"

text \<open>
  \<^verbatim>\<open>handleStartGame\<close>; \<open>now\<close> is the clock read for the event id, the last
  argument is what awaiting \<^verbatim>\<open>initializeGame\<close> gives, an exception or a response.
\<close>

definition handleStartGame ::
  "App \<Rightarrow> int option \<Rightarrow> bool \<Rightarrow> int \<Rightarrow> error + GeminiResponse \<Rightarrow> App" where
  "handleStartGame app eraOverride keepStats now result =
     (if projectName (app_settings app) = [] \<or> ticker (app_settings app) = []
         \<or> founderName (app_settings app) = [] then app
      else if getEffectiveApiKey app = []
      then app\<lparr>alerts := alerts app
                 @ [''API Key is required to connect to the blockchain simulation.'']\<rparr>
      else
        (let start = startingStats (stats (gameState app)) eraOverride keepStats;
             app1 = handleStartGame_pending app eraOverride keepStats;
             prev = gameState app1
         in case result of
              Inr response \<Rightarrow>
                app1\<lparr>gameState := prev\<lparr>
                  isLoading := False,
                  history := (if keepStats then history prev else [])
                    @ [\<lparr>event_id = ''turn-'' @ show_int (era start) @ ''-init-'' @ show_int now,
                        turn = 0, narrative = response_narrative response,
                        choices = Some (response_choices response), kind = Narrative\<rparr>],
                  stats := start\<lparr>funds := funds start
                    + js_or (funds_change (response_stats_update response)) 0\<rparr>\<rparr>\<rparr>
            | Inl e \<Rightarrow>
                app1\<lparr>gameState := prev\<lparr>
                  isLoading := False,
                  history := history prev
                    @ [\<lparr>event_id = ''error-init'', turn = 0,
                        narrative = ''Error initializing game engine. Check API Key validity.'',
                        choices = None, kind = Alert\<rparr>]\<rparr>\<rparr>))"

subsection \<open>handlePurchaseModule and handleRemoveModule\<close>

definition new_module :: "ModuleType \<Rightarrow> int \<Rightarrow> InfrastructureModule" where
  "new_module t now =
     (let moduleDef = AVAILABLE_MODULES t
      in \<lparr>moduleType = moduleType moduleDef, moduleName = moduleName moduleDef,
          cost = cost moduleDef, maintenance = maintenance moduleDef,
          description = description moduleDef, statsEffect = statsEffect moduleDef,
          moduleId = type_name t @ ''-'' @ show_int now\<rparr>)"

definition handlePurchaseModule :: "GameState \<Rightarrow> int \<Rightarrow> ModuleType \<Rightarrow> int \<Rightarrow> GameState" where
  "handlePurchaseModule gs slotId t now =
     (let moduleDef = AVAILABLE_MODULES t
      in if funds (stats gs) < cost moduleDef then gs
         else gs\<lparr>
           stats := (stats gs)\<lparr>funds := funds (stats gs) - cost moduleDef\<rparr>,
           infrastructure := array_assign (spread (infrastructure gs)) slotId
             \<lparr>slot_id = slotId, module = Some (new_module t now)\<rparr>\<rparr>)"

definition handleRemoveModule :: "GameState \<Rightarrow> int \<Rightarrow> GameState" where
  "handleRemoveModule gs slotId =
     gs\<lparr>infrastructure := array_assign (spread (infrastructure gs)) slotId
          \<lparr>slot_id = slotId, module = None\<rparr>\<rparr>"

subsection \<open>handleSendMessage\<close>

text \<open>
  The passive effects of the installed hardware. The accumulator starts as
  \<^verbatim>\<open>{ funds: 0, security: 0, hype: 0, techLevel: 0 }\<close>; the callback of
  \<^verbatim>\<open>forEach\<close> reads \<^verbatim>\<open>slot.module\<close>, which throws on a position
  holding \<^verbatim>\<open>undefined\<close> or \<^verbatim>\<open>null\<close>.
\<close>

definition infraEffects_init :: PartialGameStats where
  "infraEffects_init = no_stats\<lparr>pFunds := Some 0, pSecurity := Some 0, pHype := Some 0,
     pTechLevel := Some 0\<rparr>"

definition infra_callback :: "PartialGameStats \<Rightarrow> GridSlot \<Rightarrow> PartialGameStats" where
  "infra_callback acc slot =
     (case module slot of
        None \<Rightarrow> acc
      | Some m \<Rightarrow>
          (let a1 = (if moduleType m = Miner
                     then acc\<lparr>pFunds := Some (js_or (pFunds acc) 0 + 150)\<rparr> else acc);
               a2 = (if moduleType m = Validator
                     then a1\<lparr>pSecurity := Some (js_or (pSecurity a1) 0 + 1)\<rparr> else a1);
               a3 = (if moduleType m = Rpc
                     then a2\<lparr>pHype := Some (js_or (pHype a2) 0 + 1)\<rparr> else a2)
           in a3))"

fun infra_forEach :: "Grid \<Rightarrow> PartialGameStats \<Rightarrow> error + PartialGameStats" where
  "infra_forEach [] acc = Inr acc"
| "infra_forEach (Hole # g) acc = infra_forEach g acc"
| "infra_forEach (Nullish # g) acc = Inl TypeError"
| "infra_forEach (Item slot # g) acc = infra_forEach g (infra_callback acc slot)"

definition infraEffects :: "Grid \<Rightarrow> error + PartialGameStats" where
  "infraEffects g = infra_forEach g infraEffects_init"

text \<open>The merge of the oracle's deltas and the passive effects into the stats.\<close>

definition newStats :: "GameStats \<Rightarrow> StatsUpdate \<Rightarrow> PartialGameStats \<Rightarrow> GameStats" where
  "newStats cur upd eff = cur\<lparr>
     funds := max 0 (funds cur + js_or (funds_change upd) 0 + js_or (pFunds eff) 0),
     users := max 0 (users cur + js_or (users_change upd) 0),
     security := min 100 (max 0 (security cur + js_or (security_change upd) 0
                   + js_or (pSecurity eff) 0)),
     hype := min 100 (max 0 (hype cur + js_or (hype_change upd) 0 + js_or (pHype eff) 0)),
     techLevel := min 100 (max 0 (techLevel cur + js_or (tech_level_change upd) 0)),
     decentralization := min 100 (max 0 (decentralization cur
                   + js_or (decentralization_change upd) 0))\<rparr>"

text \<open>
  How a call ends: it runs to its end, or an exception leaves it; either way with the
  state it has reached.
\<close>

datatype 'a completion = Done 'a | Uncaught error 'a

text \<open>
  \<^verbatim>\<open>handleSendMessage\<close>; \<open>now\<close> is the clock read for the id of an error
  event, the last argument is what awaiting \<^verbatim>\<open>processTurn\<close> gives at its declared
  type, an exception or a response. The state the handler closes over and the state its
  updates start from are taken to be the same: no other update happens while the turn is
  in flight. The loop over the grid stands before the \<^verbatim>\<open>try\<close>.
\<close>

definition handleSendMessage ::
  "GameState \<Rightarrow> string \<Rightarrow> int \<Rightarrow> error + GeminiResponse \<Rightarrow> GameState completion" where
  "handleSendMessage gs message now result =
     (let userEvent = \<lparr>event_id = ''turn-'' @ show_int (turnCount gs) @ ''-user'',
                       turn = turnCount gs, narrative = message, choices = None,
                       kind = Choice\<rparr>;
          prev = gs\<lparr>isLoading := True, history := history gs @ [userEvent]\<rparr>
      in case infraEffects (infrastructure gs) of
           Inl e \<Rightarrow> Uncaught e prev
         | Inr eff \<Rightarrow>
             (case result of
                Inr response \<Rightarrow>
                  Done (prev\<lparr>
                    isLoading := False,
                    turnCount := turnCount prev + 1,
                    stats := newStats (stats gs) (response_stats_update response) eff,
                    history := history prev
                      @ [\<lparr>event_id = ''turn-'' @ show_int (turnCount gs + 1) @ ''-ai'',
                          turn = turnCount gs + 1,
                          narrative = response_narrative response,
                          choices = Some (response_choices response),
                          kind = (if response_event_type response = ''game_over'' then Failure
                                  else if response_event_type response = ''victory'' then Success
                                  else Narrative)\<rparr>],
                    gameOver := (response_event_type response = ''game_over''),
                    gameWon := (response_event_type response = ''victory'')\<rparr>)
              | Inl e \<Rightarrow>
                  Done (prev\<lparr>
                    isLoading := False,
                    history := history prev
                      @ [\<lparr>event_id = ''error-'' @ show_int now, turn = turnCount prev,
                          narrative =
                            ''Network Error. Connection to Blockchain failed. (Check API Key)'',
                          choices = None, kind = Alert\<rparr>]\<rparr>)))"

section \<open>StatModel and InfrastructureGrid in the specification's words\<close>

text \<open>
  A delta gives a change for each of the six stats; a field a partial delta leaves out
  counts as 0.
\<close>

record Delta =
  dFunds :: int
  dUsers :: int
  dSecurity :: int
  dHype :: int
  dTechLevel :: int
  dDecentralization :: int

definition zero_delta :: Delta where
  "zero_delta = \<lparr>dFunds = 0, dUsers = 0, dSecurity = 0, dHype = 0, dTechLevel = 0,
     dDecentralization = 0\<rparr>"

definition spec_sum :: "Delta \<Rightarrow> Delta \<Rightarrow> Delta" where
  "spec_sum a b = \<lparr>dFunds = dFunds a + dFunds b, dUsers = dUsers a + dUsers b,
     dSecurity = dSecurity a + dSecurity b, dHype = dHype a + dHype b,
     dTechLevel = dTechLevel a + dTechLevel b,
     dDecentralization = dDecentralization a + dDecentralization b\<rparr>"

definition spec_clamp :: "int \<Rightarrow> int \<Rightarrow> int \<Rightarrow> int" where
  "spec_clamp x lo hi = min hi (max lo x)"

text \<open>
  \<open>applyDelta\<close>: funds and users are bounded below by 0, the four bounded fields are
  clamped into 0..100, the era is not touched.
\<close>

definition spec_applyDelta :: "GameStats \<Rightarrow> Delta \<Rightarrow> GameStats" where
  "spec_applyDelta cur d =
     \<lparr>funds = max 0 (funds cur + dFunds d),
      users = max 0 (users cur + dUsers d),
      security = spec_clamp (security cur + dSecurity d) 0 100,
      hype = spec_clamp (hype cur + dHype d) 0 100,
      techLevel = spec_clamp (techLevel cur + dTechLevel d) 0 100,
      decentralization = spec_clamp (decentralization cur + dDecentralization d) 0 100,
      era = era cur\<rparr>"

text \<open>The fixed contribution of one installed module per turn, by its type.\<close>

fun spec_contribution :: "ModuleType \<Rightarrow> Delta" where
  "spec_contribution Miner = zero_delta\<lparr>dFunds := 150\<rparr>"
| "spec_contribution Validator = zero_delta\<lparr>dSecurity := 1\<rparr>"
| "spec_contribution Rpc = zero_delta\<lparr>dHype := 1\<rparr>"
| "spec_contribution Firewall = zero_delta"

text \<open>The types of the modules in the occupied slots, in slot order.\<close>

fun module_types :: "Grid \<Rightarrow> ModuleType list" where
  "module_types [] = []"
| "module_types (Item slot # g) =
     (case module slot of None \<Rightarrow> module_types g
      | Some m \<Rightarrow> moduleType m # module_types g)"
| "module_types (e # g) = module_types g"

text \<open>\<open>passiveEffectsForTurn\<close>: the sum of the contributions of the occupied slots.\<close>

definition spec_passiveEffectsForTurn :: "Grid \<Rightarrow> Delta" where
  "spec_passiveEffectsForTurn g =
     foldr (\<lambda>t d. spec_sum (spec_contribution t) d) (module_types g) zero_delta"

text \<open>The oracle's update and the program's accumulator, read as deltas.\<close>

definition absent_0 :: "int option \<Rightarrow> int" where
  "absent_0 x = (case x of None \<Rightarrow> 0 | Some v \<Rightarrow> v)"

definition oracle_delta :: "StatsUpdate \<Rightarrow> Delta" where
  "oracle_delta upd =
     \<lparr>dFunds = absent_0 (funds_change upd), dUsers = absent_0 (users_change upd),
      dSecurity = absent_0 (security_change upd), dHype = absent_0 (hype_change upd),
      dTechLevel = absent_0 (tech_level_change upd),
      dDecentralization = absent_0 (decentralization_change upd)\<rparr>"

definition effects_delta :: "PartialGameStats \<Rightarrow> Delta" where
  "effects_delta eff =
     \<lparr>dFunds = absent_0 (pFunds eff), dUsers = absent_0 (pUsers eff),
      dSecurity = absent_0 (pSecurity eff), dHype = absent_0 (pHype eff),
      dTechLevel = absent_0 (pTechLevel eff),
      dDecentralization = absent_0 (pDecentralization eff)\<rparr>"

text \<open>
  A failed oracle call in the specification's words: a transport failure, or a reply that
  is malformed or does not conform to the response schema.
\<close>

fun spec_oracle_call_fails :: "oracle_reply \<Rightarrow> bool" where
  "spec_oracle_call_fails (Text_JSON v) = (\<not> RESPONSE_SCHEMA v)"
| "spec_oracle_call_fails reply = True"

section \<open>The merge of a turn on doubles\<close>

text \<open>
  The numbers of a response come out of \<^verbatim>\<open>JSON.parse\<close> unchecked, and a
  literal beyond the largest double parses to an infinity. A double is
  \<^verbatim>\<open>NaN\<close>, an infinity or a finite value. The sum of two finite doubles is
  their exact sum rounded: a finite double, or on overflow the infinity on the side of the
  sum. The rounding is an argument of the model, \<open>None\<close> standing for overflow, so
  that what is proved holds for the rounding of doubles whatever it does.
\<close>

datatype number = NaN | NegInf | PosInf | Fin real

type_synonym rounding = "real \<Rightarrow> real option"

fun js_add :: "rounding \<Rightarrow> number \<Rightarrow> number \<Rightarrow> number" where
  "js_add rnd NaN y = NaN"
| "js_add rnd x NaN = NaN"
| "js_add rnd PosInf NegInf = NaN"
| "js_add rnd NegInf PosInf = NaN"
| "js_add rnd PosInf y = PosInf"
| "js_add rnd NegInf y = NegInf"
| "js_add rnd x PosInf = PosInf"
| "js_add rnd x NegInf = NegInf"
| "js_add rnd (Fin a) (Fin b) =
     (case rnd (a + b) of
        Some c \<Rightarrow> Fin c
      | None \<Rightarrow> if a + b < 0 then NegInf else PosInf)"

text \<open>\<^verbatim>\<open>x <= y\<close>, false whenever \<^verbatim>\<open>NaN\<close> is compared.\<close>

fun js_le :: "number \<Rightarrow> number \<Rightarrow> bool" where
  "js_le NaN y = False"
| "js_le x NaN = False"
| "js_le NegInf y = True"
| "js_le x PosInf = True"
| "js_le PosInf y = False"
| "js_le x NegInf = False"
| "js_le (Fin a) (Fin b) = (a \<le> b)"

text \<open>
  \<^verbatim>\<open>Math.max\<close> and \<^verbatim>\<open>Math.min\<close> of two numbers:
  \<^verbatim>\<open>NaN\<close> as soon as one of them is.
\<close>

fun Math_max :: "number \<Rightarrow> number \<Rightarrow> number" where
  "Math_max NaN y = NaN"
| "Math_max x NaN = NaN"
| "Math_max x y = (if js_le x y then y else x)"

fun Math_min :: "number \<Rightarrow> number \<Rightarrow> number" where
  "Math_min NaN y = NaN"
| "Math_min x NaN = NaN"
| "Math_min x y = (if js_le x y then x else y)"

text \<open>
  \<^verbatim>\<open>x || d\<close> on an optional double: absent, \<^verbatim>\<open>NaN\<close> and 0 are
  falsy, the infinities are not.
\<close>

fun js_or_number :: "number option \<Rightarrow> number \<Rightarrow> number" where
  "js_or_number None d = d"
| "js_or_number (Some NaN) d = d"
| "js_or_number (Some (Fin x)) d = (if x = 0 then d else Fin x)"
| "js_or_number (Some x) d = x"

text \<open>The stats, the oracle's update and the passive effects with doubles in them.\<close>

record NumberStats =
  funds_n :: number
  users_n :: number
  security_n :: number
  hype_n :: number
  techLevel_n :: number
  decentralization_n :: number
  era_n :: number

record NumberUpdate =
  funds_change_n :: "number option"
  users_change_n :: "number option"
  security_change_n :: "number option"
  hype_change_n :: "number option"
  tech_level_change_n :: "number option"
  decentralization_change_n :: "number option"

record NumberEffects =
  pFunds_n :: "number option"
  pUsers_n :: "number option"
  pSecurity_n :: "number option"
  pHype_n :: "number option"
  pTechLevel_n :: "number option"
  pDecentralization_n :: "number option"
  pEra_n :: "number option"

text \<open>The merge of lines 316 to 324 of the component, sums taken from left to right.\<close>

definition newStats_number ::
  "rounding \<Rightarrow> NumberStats \<Rightarrow> NumberUpdate \<Rightarrow> NumberEffects \<Rightarrow> NumberStats" where
  "newStats_number rnd cur upd eff = cur\<lparr>
     funds_n := Math_max (Fin 0)
       (js_add rnd (js_add rnd (funds_n cur) (js_or_number (funds_change_n upd) (Fin 0)))
          (js_or_number (pFunds_n eff) (Fin 0))),
     users_n := Math_max (Fin 0)
       (js_add rnd (users_n cur) (js_or_number (users_change_n upd) (Fin 0))),
     security_n := Math_min (Fin 100) (Math_max (Fin 0)
       (js_add rnd (js_add rnd (security_n cur) (js_or_number (security_change_n upd) (Fin 0)))
          (js_or_number (pSecurity_n eff) (Fin 0)))),
     hype_n := Math_min (Fin 100) (Math_max (Fin 0)
       (js_add rnd (js_add rnd (hype_n cur) (js_or_number (hype_change_n upd) (Fin 0)))
          (js_or_number (pHype_n eff) (Fin 0)))),
     techLevel_n := Math_min (Fin 100) (Math_max (Fin 0)
       (js_add rnd (techLevel_n cur) (js_or_number (tech_level_change_n upd) (Fin 0)))),
     decentralization_n := Math_min (Fin 100) (Math_max (Fin 0)
       (js_add rnd (decentralization_n cur)
          (js_or_number (decentralization_change_n upd) (Fin 0))))\<rparr>"



text \<open>
  The integers of the model above as doubles, and the rounding that leaves a sum as it is,
  which is what doubles do to integers inside the safe range.
\<close>

definition exact :: rounding where
  "exact x = Some x"

definition number_of :: "int \<Rightarrow> number" where
  "number_of i = Fin (real_of_int i)"

definition stats_numbers :: "GameStats \<Rightarrow> NumberStats" where
  "stats_numbers s = \<lparr>funds_n = number_of (funds s), users_n = number_of (users s),
     security_n = number_of (security s), hype_n = number_of (hype s),
     techLevel_n = number_of (techLevel s),
     decentralization_n = number_of (decentralization s), era_n = number_of (era s)\<rparr>"

definition update_numbers :: "StatsUpdate \<Rightarrow> NumberUpdate" where
  "update_numbers u = \<lparr>funds_change_n = map_option number_of (funds_change u),
     users_change_n = map_option number_of (users_change u),
     security_change_n = map_option number_of (security_change u),
     hype_change_n = map_option number_of (hype_change u),
     tech_level_change_n = map_option number_of (tech_level_change u),
     decentralization_change_n = map_option number_of (decentralization_change u)\<rparr>"

definition effects_numbers :: "PartialGameStats \<Rightarrow> NumberEffects" where
  "effects_numbers e = \<lparr>pFunds_n = map_option number_of (pFunds e),
     pUsers_n = map_option number_of (pUsers e),
     pSecurity_n = map_option number_of (pSecurity e),
     pHype_n = map_option number_of (pHype e),
     pTechLevel_n = map_option number_of (pTechLevel e),
     pDecentralization_n = map_option number_of (pDecentralization e),
     pEra_n = map_option number_of (pEra e)\<rparr>"

section \<open>Facts about the grid and the passive effects\<close>

lemma INITIAL_GRID_slots:
  "INITIAL_GRID = [Item \<lparr>slot_id = 0, module = None\<rparr>, Item \<lparr>slot_id = 1, module = None\<rparr>,
     Item \<lparr>slot_id = 2, module = None\<rparr>, Item \<lparr>slot_id = 3, module = None\<rparr>,
     Item \<lparr>slot_id = 4, module = None\<rparr>, Item \<lparr>slot_id = 5, module = None\<rparr>,
     Item \<lparr>slot_id = 6, module = None\<rparr>, Item \<lparr>slot_id = 7, module = None\<rparr>,
     Item \<lparr>slot_id = 8, module = None\<rparr>, Item \<lparr>slot_id = 9, module = None\<rparr>,
     Item \<lparr>slot_id = 10, module = None\<rparr>, Item \<lparr>slot_id = 11, module = None\<rparr>]"
  by (simp add: INITIAL_GRID_def upt_rec)

lemma INITIAL_GRID_nth:
  "i < 12 \<Longrightarrow> INITIAL_GRID ! i = Item \<lparr>slot_id = int i, module = None\<rparr>"
  by (simp add: INITIAL_GRID_def)

lemma hardwareSummary_INITIAL_GRID:
  "hardwareSummary INITIAL_GRID = Inr ''No hardware installed''"
  by (simp add: hardwareSummary_def INITIAL_GRID_slots)

lemma array_assign_nth:
  "0 \<le> i \<Longrightarrow> nat i < length (array_assign xs i v) \<and> array_assign xs i v ! nat i = Item v"
  by (simp add: array_assign_def nth_append)

lemma js_or_absent_0: "js_or x 0 = absent_0 x"
  by (cases x) (simp_all add: absent_0_def)

text \<open>One visit of the callback adds the contribution of the slot's module, if any.\<close>

lemma callback_fields:
  assumes "pFunds acc = Some f" and "pSecurity acc = Some s" and "pHype acc = Some h"
  shows "infra_callback acc slot =
     acc\<lparr>pFunds := Some (f + 150 * int (count (mset (module_types [Item slot])) Miner)),
         pSecurity := Some (s + int (count (mset (module_types [Item slot])) Validator)),
         pHype := Some (h + int (count (mset (module_types [Item slot])) Rpc))\<rparr>"
proof (cases "module slot")
  case None
  with assms show ?thesis by (simp add: infra_callback_def)
next
  case (Some m)
  with assms show ?thesis
    by (cases "moduleType m") (simp_all add: infra_callback_def Let_def)
qed

text \<open>The loop, from any accumulator that has the three counted fields.\<close>

lemma forEach_acc:
  "infra_forEach g acc = Inr eff \<Longrightarrow>
   pFunds acc = Some f \<Longrightarrow> pSecurity acc = Some s \<Longrightarrow> pHype acc = Some h \<Longrightarrow>
   eff = acc\<lparr>pFunds := Some (f + 150 * int (count (mset (module_types g)) Miner)),
             pSecurity := Some (s + int (count (mset (module_types g)) Validator)),
             pHype := Some (h + int (count (mset (module_types g)) Rpc))\<rparr>"
proof (induction g acc arbitrary: f s h rule: infra_forEach.induct)
  case (1 acc)
  then show ?case by simp
next
  case (2 g acc)
  then show ?case by simp
next
  case (3 g acc)
  then show ?case by simp
next
  case (4 slot g acc)
  let ?a = "infra_callback acc slot"
  have cb: "?a =
     acc\<lparr>pFunds := Some (f + 150 * int (count (mset (module_types [Item slot])) Miner)),
         pSecurity := Some (s + int (count (mset (module_types [Item slot])) Validator)),
         pHype := Some (h + int (count (mset (module_types [Item slot])) Rpc))\<rparr>"
    using "4.prems"(2-4) by (rule callback_fields)
  have run: "infra_forEach g ?a = Inr eff"
    using "4.prems"(1) by simp
  have "eff = ?a\<lparr>
      pFunds := Some (f + 150 * int (count (mset (module_types [Item slot])) Miner)
                  + 150 * int (count (mset (module_types g)) Miner)),
      pSecurity := Some (s + int (count (mset (module_types [Item slot])) Validator)
                  + int (count (mset (module_types g)) Validator)),
      pHype := Some (h + int (count (mset (module_types [Item slot])) Rpc)
                  + int (count (mset (module_types g)) Rpc))\<rparr>"
    by (rule "4.IH"[OF run]) (simp_all add: cb)
  then show ?case
    by (cases "module slot") (simp_all add: cb)
qed

lemma infraEffects_counts:
  assumes "infraEffects g = Inr eff"
  shows "eff = \<lparr>pFunds = Some (150 * int (count (mset (module_types g)) Miner)),
                pUsers = None,
                pSecurity = Some (int (count (mset (module_types g)) Validator)),
                pHype = Some (int (count (mset (module_types g)) Rpc)),
                pTechLevel = Some 0, pDecentralization = None, pEra = None\<rparr>"
proof -
  have "infra_forEach g infraEffects_init = Inr eff"
    using assms by (simp add: infraEffects_def)
  from forEach_acc[OF this, of 0 0 0] show ?thesis
    by (simp add: infraEffects_init_def no_stats_def)
qed

lemma spec_passive_foldr:
  "foldr (\<lambda>t d. spec_sum (spec_contribution t) d) ts zero_delta =
     \<lparr>dFunds = 150 * int (count (mset ts) Miner), dUsers = 0,
      dSecurity = int (count (mset ts) Validator), dHype = int (count (mset ts) Rpc),
      dTechLevel = 0, dDecentralization = 0\<rparr>"
proof (induction ts)
  case Nil
  show ?case by (simp add: zero_delta_def)
next
  case (Cons t ts)
  then show ?case by (cases t) (simp_all add: spec_sum_def zero_delta_def)
qed

lemma infraEffects_spec:
  assumes "infraEffects g = Inr eff"
  shows "effects_delta eff = spec_passiveEffectsForTurn g"
  by (simp add: infraEffects_counts[OF assms] effects_delta_def absent_0_def
      spec_passiveEffectsForTurn_def spec_passive_foldr)

lemma newStats_spec:
  assumes "infraEffects g = Inr eff"
  shows "newStats cur upd eff =
     spec_applyDelta cur (spec_sum (oracle_delta upd) (spec_passiveEffectsForTurn g))"
proof -
  have e: "spec_passiveEffectsForTurn g = effects_delta eff"
    using infraEffects_spec[OF assms] by simp
  have t: "pTechLevel eff = Some 0" "pUsers eff = None" "pDecentralization eff = None"
    by (simp_all add: infraEffects_counts[OF assms])
  show ?thesis
    unfolding e
    by (simp add: newStats_def spec_applyDelta_def spec_sum_def oracle_delta_def
        effects_delta_def spec_clamp_def js_or_absent_0 t absent_0_def[of "Some 0"]
        absent_0_def[of None])
qed

section \<open>Facts about a turn\<close>

lemma handleSendMessage_Done:
  assumes "handleSendMessage gs message now (Inr response) = Done gs'"
  obtains eff where "infraEffects (infrastructure gs) = Inr eff"
    and "gs' = gs\<lparr>isLoading := False, turnCount := turnCount gs + 1,
           stats := newStats (stats gs) (response_stats_update response) eff,
           history := history gs
             @ [\<lparr>event_id = ''turn-'' @ show_int (turnCount gs) @ ''-user'',
                 turn = turnCount gs, narrative = message, choices = None, kind = Choice\<rparr>,
                \<lparr>event_id = ''turn-'' @ show_int (turnCount gs + 1) @ ''-ai'',
                 turn = turnCount gs + 1, narrative = response_narrative response,
                 choices = Some (response_choices response),
                 kind = (if response_event_type response = ''game_over'' then Failure
                         else if response_event_type response = ''victory'' then Success
                         else Narrative)\<rparr>],
           gameOver := (response_event_type response = ''game_over''),
           gameWon := (response_event_type response = ''victory'')\<rparr>"
  using assms
  by (cases "infraEffects (infrastructure gs)") (auto simp: handleSendMessage_def Let_def)

lemma handleSendMessage_resolves:
  assumes "infraEffects (infrastructure gs) = Inr eff"
  shows "\<exists>gs'. handleSendMessage gs message now (Inr response) = Done gs'"
  using assms by (simp add: handleSendMessage_def Let_def)

lemma turn_stats_spec:
  assumes "handleSendMessage gs message now (Inr response) = Done gs'"
  shows "stats gs' = spec_applyDelta (stats gs)
           (spec_sum (oracle_delta (response_stats_update response))
              (spec_passiveEffectsForTurn (infrastructure gs)))"
proof -
  from assms obtain eff where e: "infraEffects (infrastructure gs) = Inr eff"
    and g: "stats gs' = newStats (stats gs) (response_stats_update response) eff"
    by (elim handleSendMessage_Done) simp
  show ?thesis unfolding g by (rule newStats_spec[OF e])
qed

text \<open>The scenario of one miner installed in the first slot of a fresh game.\<close>

lemma miner_grid:
  "infrastructure (handlePurchaseModule initial_gameState 0 Miner now) =
     Item \<lparr>slot_id = 0, module = Some (new_module Miner now)\<rparr> # tl INITIAL_GRID"
  by (simp add: handlePurchaseModule_def initial_gameState_def INITIAL_STATS_def
      INITIAL_GRID_slots spread_def array_assign_def)

lemma miner_stats:
  "stats (handlePurchaseModule initial_gameState 0 Miner now) = INITIAL_STATS\<lparr>funds := 8500\<rparr>"
  by (simp add: handlePurchaseModule_def initial_gameState_def INITIAL_STATS_def)

lemma miner_types:
  "module_types (infrastructure (handlePurchaseModule initial_gameState 0 Miner now)) = [Miner]"
  by (simp add: miner_grid INITIAL_GRID_slots new_module_def)

lemma miner_effects:
  "infraEffects (infrastructure (handlePurchaseModule initial_gameState 0 Miner now)) =
     Inr (infraEffects_init\<lparr>pFunds := Some 150\<rparr>)"
  by (simp add: miner_grid INITIAL_GRID_slots infraEffects_def infra_callback_def
      new_module_def infraEffects_init_def)

lemma miner_passive:
  "spec_passiveEffectsForTurn (infrastructure (handlePurchaseModule initial_gameState 0 Miner now))
     = zero_delta\<lparr>dFunds := 150\<rparr>"
  by (simp add: spec_passiveEffectsForTurn_def miner_types spec_sum_def zero_delta_def)

text \<open>Two grids holding two miners and a validator, in different slots and orders.\<close>

lemma two_miners_validator:
  "infraEffects (infrastructure (handlePurchaseModule (handlePurchaseModule
      (handlePurchaseModule initial_gameState 0 Miner 1) 1 Miner 2) 2 Validator 3))
   = Inr (infraEffects_init\<lparr>pFunds := Some 300, pSecurity := Some 1\<rparr>)"
  by (simp add: handlePurchaseModule_def initial_gameState_def INITIAL_STATS_def
      INITIAL_GRID_slots spread_def array_assign_def infraEffects_def infra_callback_def
      new_module_def infraEffects_init_def)

lemma validator_two_miners:
  "infraEffects (infrastructure (handlePurchaseModule (handlePurchaseModule
      (handlePurchaseModule initial_gameState 4 Validator 1) 11 Miner 2) 7 Miner 3))
   = Inr (infraEffects_init\<lparr>pFunds := Some 300, pSecurity := Some 1\<rparr>)"
  by (simp add: handlePurchaseModule_def initial_gameState_def INITIAL_STATS_def
      INITIAL_GRID_slots spread_def array_assign_def infraEffects_def infra_callback_def
      new_module_def infraEffects_init_def)

lemma two_miners_validator_types:
  "module_types (infrastructure (handlePurchaseModule (handlePurchaseModule
      (handlePurchaseModule initial_gameState 0 Miner 1) 1 Miner 2) 2 Validator 3))
     = [Miner, Miner, Validator]"
  by (simp add: handlePurchaseModule_def initial_gameState_def INITIAL_STATS_def
      INITIAL_GRID_slots spread_def array_assign_def new_module_def)

lemma validator_two_miners_types:
  "module_types (infrastructure (handlePurchaseModule (handlePurchaseModule
      (handlePurchaseModule initial_gameState 4 Validator 1) 11 Miner 2) 7 Miner 3))
     = [Validator, Miner, Miner]"
  by (simp add: handlePurchaseModule_def initial_gameState_def INITIAL_STATS_def
      INITIAL_GRID_slots spread_def array_assign_def new_module_def)

section \<open>Facts about the merge on doubles\<close>

text \<open>On integers and with sums left as they are, the merge on doubles is the merge above.\<close>

lemma js_or_number_of: "js_or_number (map_option number_of x) (Fin 0) = number_of (js_or x 0)"
  by (cases x) (simp_all add: number_of_def)

lemma js_add_exact: "js_add exact (number_of a) (number_of b) = number_of (a + b)"
  by (simp add: number_of_def exact_def)

lemma Math_max_of: "Math_max (Fin 0) (number_of a) = number_of (max 0 a)"
  by (simp add: number_of_def max_def)

lemma Math_min_of: "Math_min (Fin 100) (number_of a) = number_of (min 100 a)"
  by (simp add: number_of_def min_def)

lemma newStats_number_exact:
  "newStats_number exact (stats_numbers cur) (update_numbers upd) (effects_numbers eff)
     = stats_numbers (newStats cur upd eff)"
  by (simp add: newStats_number_def newStats_def stats_numbers_def update_numbers_def
      effects_numbers_def js_or_number_of js_add_exact Math_max_of Math_min_of)







section \<open>Facts about a new era\<close>

text \<open>A number has as many binary digits as \<open>bit_length\<close> says.\<close>

lemma bit_length_upper: "n < 2 ^ bit_length n"
proof (induction n rule: bit_length.induct)
  case (1 n)
  show ?case
  proof (cases "n = 0")
    case True
    then show ?thesis by (simp add: bit_length.simps[of 0])
  next
    case False
    with 1 have "n div 2 < 2 ^ bit_length (n div 2)" by simp
    then have "n < 2 * 2 ^ bit_length (n div 2)" by linarith
    with False show ?thesis by (simp add: bit_length.simps[of n])
  qed
qed

lemma bit_length_lower: "n \<noteq> 0 \<Longrightarrow> 2 ^ (bit_length n - 1) \<le> n"
proof (induction n rule: bit_length.induct)
  case (1 n)
  show ?case
  proof (cases "n div 2 = 0")
    case True
    with 1(2) have "n = 1" by linarith
    then show ?thesis
      by (simp add: bit_length.simps[of "Suc 0"] bit_length.simps[of 0])
  next
    case False
    with 1 have ih: "2 ^ (bit_length (n div 2) - 1) \<le> n div 2" by simp
    have pos: "bit_length (n div 2) \<noteq> 0"
      using False by (simp add: bit_length.simps[of "n div 2"])
    have "bit_length n - 1 = Suc (bit_length (n div 2) - 1)"
      using 1(2) pos by (simp add: bit_length.simps[of n])
    then have "(2::nat) ^ (bit_length n - 1) = 2 * 2 ^ (bit_length (n div 2) - 1)"
      by simp
    also have "\<dots> \<le> 2 * (n div 2)" using ih by simp
    also have "\<dots> \<le> n" by simp
    finally show ?thesis .
  qed
qed

text \<open>
  Below 2^52 the rounding of the product with the double 0.1 never reaches the next
  integer: ten times the exact product is \<open>u * 2^55 + 2 * u\<close>, and the rounding moves
  it by less than 2^51.
\<close>

lemma round_tenth_nat:
  assumes "u < 2 ^ 52"
  shows "round_to_53_bits (u * 3602879701896397) div 2 ^ 55 = u div 10"
proof (cases "u * 3602879701896397 < 2 ^ 53")
  case True
  then have "u \<le> 2" by simp
  then have "u div 10 = 0" by simp
  moreover have "u * 3602879701896397 div 2 ^ 55 = 0"
    using True by simp
  ultimately show ?thesis using True by (simp add: round_to_53_bits_def)
next
  case False
  define m where "m = u * 3602879701896397"
  define s where "s = bit_length m - 53"
  define k where "k = u div 10"
  have m53: "2 ^ 53 \<le> m" using False by (simp add: m_def)
  have m104: "m < 2 ^ 104"
  proof -
    have "m < 2 ^ 52 * 3602879701896397" using assms by (simp add: m_def)
    also have "\<dots> < (2::nat) ^ 104" by simp
    finally show ?thesis .
  qed
  have "(2::nat) ^ 53 < 2 ^ bit_length m"
    using m53 bit_length_upper[of m] by linarith
  then have bl_lo: "53 < bit_length m"
    by (rule power_less_imp_less_exp[rotated]) simp
  have "m \<noteq> 0" using m53 by auto
  then have "(2::nat) ^ (bit_length m - 1) < 2 ^ 104"
    using bit_length_lower[of m] m104 by linarith
  then have bl_hi: "bit_length m - 1 < 104"
    by (rule power_less_imp_less_exp[rotated]) simp
  have s: "1 \<le> s" "s \<le> 51" using bl_lo bl_hi by (simp_all add: s_def)
  define S :: nat where "S = 2 ^ s"
  define P :: nat where "P = 2 ^ (55 - s)"
  have SP: "P * S = 2 ^ 55"
    using s by (simp add: S_def P_def flip: power_add)
  have Spos: "0 < S" by (simp add: S_def)
  have S51: "S \<le> 2 ^ 51"
    unfolding S_def by (rule power_increasing) (use s in simp_all)
  have ten: "10 * m = u * 2 ^ 55 + 2 * u" by (simp add: m_def)
  have uk: "10 * k \<le> u" "u < 10 * k + 10" by (simp_all add: k_def)
  have lower: "k * (P * S) \<le> m"
  proof -
    have "10 * (k * 2 ^ 55) \<le> u * 2 ^ 55" using uk(1) by simp
    also have "\<dots> \<le> 10 * m" using ten by simp
    finally show ?thesis by (simp add: SP)
  qed
  have upper: "m + S < (k + 1) * (P * S)"
  proof -
    have "10 * (m + S) = u * 2 ^ 55 + 2 * u + 10 * S" using ten by simp
    also have "\<dots> \<le> (10 * k + 9) * 2 ^ 55 + 2 * u + 10 * S" using uk(2) by simp
    also have "\<dots> < (10 * k + 9) * 2 ^ 55 + 2 ^ 55"
      using assms S51 by simp
    also have "\<dots> = 10 * ((k + 1) * 2 ^ 55)" by simp
    finally show ?thesis by (simp add: SP)
  qed
  define q where "q = m div S"
  define q' where
    "q' = (if S < 2 * (m mod S) \<or> (2 * (m mod S) = S \<and> odd q) then q + 1 else q)"
  have r: "round_to_53_bits m = q' * S"
    using m53 by (simp add: round_to_53_bits_def Let_def q'_def q_def S_def s_def)
  have "k * P * S \<le> m" using lower by (simp add: mult.assoc)
  then have "k * P * S div S \<le> m div S" by (rule div_le_mono)
  then have kq: "k * P \<le> q" using Spos by (simp add: q_def)
  have qq: "q \<le> q'" "q' \<le> q + 1" by (simp_all add: q'_def)
  have "q * S \<le> m" by (simp add: q_def)
  moreover have "q' * S \<le> q * S + S"
    using qq(2) mult_le_mono1[of q' "q + 1" S] by simp
  ultimately have "q' * S \<le> m + S" by linarith
  with upper have "q' * S < (k + 1) * (P * S)" by (rule le_less_trans[rotated])
  then have "q' * S < ((k + 1) * P) * S" by (simp only: mult.assoc)
  then have q'k: "q' < (k + 1) * P" by (simp only: mult_less_cancel2)
  have "q' div P = k"
    by (rule div_nat_eqI) (use kq qq(1) q'k in \<open>simp_all add: mult.commute\<close>)
  moreover have "q' * S div 2 ^ 55 = q' div P"
  proof -
    have "q' * S div (P * S) = q' div P" using Spos by simp
    then show ?thesis by (simp only: SP)
  qed
  ultimately show ?thesis by (simp add: r k_def flip: m_def)
qed

lemma floor_times_tenth_exact:
  assumes "0 \<le> u" and "u < 2 ^ 52"
  shows "floor_times_tenth u = u div 10"
proof (cases "u = 0")
  case True
  then show ?thesis by (simp add: floor_times_tenth_def)
next
  case False
  with assms have pos: "0 < u" by simp
  have "nat u < 2 ^ 52" using assms by (simp add: nat_less_iff)
  then have "round_to_53_bits (nat u * 3602879701896397) div 2 ^ 55 = nat u div 10"
    by (rule round_tenth_nat)
  then have "int (round_to_53_bits (nat u * 3602879701896397)) div 2 ^ 55 = u div 10"
    using pos by (metis int_nat_eq less_imp_le of_nat_numeral of_nat_power zdiv_int)
  then show ?thesis using pos by (simp add: floor_times_tenth_def)
qed

lemma floor_tenth: "\<lfloor>real_of_int u / 10\<rfloor> = u div 10"
proof -
  have "\<lfloor>real_of_int u / real_of_int 10\<rfloor> = u div 10"
    by (rule floor_divide_of_int_eq)
  then show ?thesis by simp
qed

lemma startingStats_fork:
  assumes "era cur + 1 \<noteq> 0"
  shows "startingStats cur (Some (era cur + 1)) True
     = \<lparr>funds = funds cur, users = floor_times_tenth (users cur),
        security = 50, hype = 50, techLevel = 20,
        decentralization = decentralization cur, era = era cur + 1\<rparr>"
  using assms by (cases cur) (simp add: startingStats_def)

section \<open>The merge of a turn\<close>




text \<open>
  C2. The stats after a resolved turn are the specification's \<open>applyDelta\<close> of the
  current stats and the sum of the oracle's delta and the passive delta of the grid: for
  every field the deltas are summed first and the bound is applied once. Clamping after
  each source is a different function, and there is a turn on which the program differs
  from it.
\<close>

theorem turn_merge_sums_then_clamps_once:
  assumes "handleSendMessage gs message now (Inr response) = Done gs'"
  shows "stats gs' = spec_applyDelta (stats gs)
           (spec_sum (oracle_delta (response_stats_update response))
              (spec_passiveEffectsForTurn (infrastructure gs)))
     \<and> (\<exists>gs0 r0 gs1. handleSendMessage gs0 [] 0 (Inr r0) = Done gs1
           \<and> stats gs1 \<noteq> spec_applyDelta
                (spec_applyDelta (stats gs0) (oracle_delta (response_stats_update r0)))
                (spec_passiveEffectsForTurn (infrastructure gs0)))"
proof
  show "stats gs' = spec_applyDelta (stats gs)
           (spec_sum (oracle_delta (response_stats_update response))
              (spec_passiveEffectsForTurn (infrastructure gs)))"
    by (rule turn_stats_spec[OF assms])
next
  let ?gs0 = "handlePurchaseModule initial_gameState 0 Miner 0"
  let ?r0 = "\<lparr>response_narrative = [], response_choices = [],
               response_stats_update = no_update\<lparr>funds_change := Some (- 8600)\<rparr>,
               response_event_type = ''normal''\<rparr>"
  obtain gs1 where d: "handleSendMessage ?gs0 [] 0 (Inr ?r0) = Done gs1"
    using handleSendMessage_resolves[OF miner_effects] by blast
  have "funds (stats gs1) = 50"
    by (simp add: turn_stats_spec[OF d] miner_passive miner_stats spec_applyDelta_def
        spec_sum_def oracle_delta_def absent_0_def no_update_def zero_delta_def
        INITIAL_STATS_def)
  moreover have "funds (spec_applyDelta
                (spec_applyDelta (stats ?gs0) (oracle_delta (response_stats_update ?r0)))
                (spec_passiveEffectsForTurn (infrastructure ?gs0))) = 150"
    by (simp add: miner_passive miner_stats spec_applyDelta_def
        spec_sum_def oracle_delta_def absent_0_def no_update_def zero_delta_def
        INITIAL_STATS_def)
  ultimately have "stats gs1 \<noteq> spec_applyDelta
                (spec_applyDelta (stats ?gs0) (oracle_delta (response_stats_update ?r0)))
                (spec_passiveEffectsForTurn (infrastructure ?gs0))"
    by auto
  with d show "\<exists>gs0 r0 gs1. handleSendMessage gs0 [] 0 (Inr r0) = Done gs1
           \<and> stats gs1 \<noteq> spec_applyDelta
                (spec_applyDelta (stats gs0) (oracle_delta (response_stats_update r0)))
                (spec_passiveEffectsForTurn (infrastructure gs0))"
    by blast
qed

text \<open>
  The end-to-end scenario: a miner in the first slot has brought the funds to 8500, the
  oracle grants 200, the miner yields 150; the turn ends with funds 8850 and the other
  stats as they were.
\<close>

theorem turn_merge_sums_then_clamps_once_witness:
  "\<exists>gs'. handleSendMessage (handlePurchaseModule initial_gameState 0 Miner 0) ''stake'' 0
       (Inr \<lparr>response_narrative = ''ok'', response_choices = [],
             response_stats_update = no_update\<lparr>funds_change := Some 200\<rparr>,
             response_event_type = ''normal''\<rparr>) = Done gs'
     \<and> stats gs' = \<lparr>funds = 8850, users = 1, security = 50, hype = 10, techLevel = 10,
                     decentralization = 0, era = 1\<rparr>"
proof -
  obtain gs' where d: "handleSendMessage (handlePurchaseModule initial_gameState 0 Miner 0)
       ''stake'' 0
       (Inr \<lparr>response_narrative = ''ok'', response_choices = [],
             response_stats_update = no_update\<lparr>funds_change := Some 200\<rparr>,
             response_event_type = ''normal''\<rparr>) = Done gs'"
    using handleSendMessage_resolves[OF miner_effects] by blast
  have "stats gs' = \<lparr>funds = 8850, users = 1, security = 50, hype = 10, techLevel = 10,
                     decentralization = 0, era = 1\<rparr>"
    using turn_merge_sums_then_clamps_once[OF d]
    by (simp add: miner_passive miner_stats spec_applyDelta_def spec_clamp_def
        spec_sum_def oracle_delta_def absent_0_def no_update_def zero_delta_def
        INITIAL_STATS_def)
  with d show ?thesis by blast
qed

text \<open>
  C10. After a resolved turn the game is over exactly when the oracle's event type is
  \<^verbatim>\<open>game_over\<close> and won exactly when it is \<^verbatim>\<open>victory\<close>; the two
  flags are never both set.
\<close>

theorem terminal_flags_exclusive:
  assumes "handleSendMessage gs message now (Inr response) = Done gs'"
  shows "\<not> (gameOver gs' \<and> gameWon gs')
     \<and> gameOver gs' = (response_event_type response = ''game_over'')
     \<and> gameWon gs' = (response_event_type response = ''victory'')"
proof -
  from assms have
    "gameOver gs' = (response_event_type response = ''game_over'')"
    "gameWon gs' = (response_event_type response = ''victory'')"
    by (elim handleSendMessage_Done, simp)+
  then show ?thesis by simp
qed

theorem terminal_flags_exclusive_witness:
  "\<exists>gs'. handleSendMessage initial_gameState ''moon'' 0
       (Inr \<lparr>response_narrative = ''won'', response_choices = [],
             response_stats_update = no_update, response_event_type = ''victory''\<rparr>) = Done gs'
     \<and> gameWon gs' \<and> \<not> gameOver gs'"
proof -
  have e: "infraEffects (infrastructure initial_gameState) = Inr infraEffects_init"
    by (simp add: initial_gameState_def INITIAL_GRID_slots infraEffects_def
        infra_callback_def)
  obtain gs' where d: "handleSendMessage initial_gameState ''moon'' 0
       (Inr \<lparr>response_narrative = ''won'', response_choices = [],
             response_stats_update = no_update, response_event_type = ''victory''\<rparr>) = Done gs'"
    using handleSendMessage_resolves[OF e] by blast
  have "gameWon gs' \<and> \<not> gameOver gs'"
    using terminal_flags_exclusive[OF d] by simp
  with d show ?thesis by blast
qed

section \<open>The passive effects of the grid\<close>

text \<open>
  C6. When the loop over the grid completes, the effects it has accumulated are the sum,
  over the occupied slots, of the fixed contribution of each module's type: 150 funds for a
  miner, 1 security for a validator, 1 hype for an rpc cluster, nothing for a firewall.
  They depend only on how many modules of each type are installed: two grids with the same
  multiset of module types have the same effects.
\<close>

theorem passive_effects_by_type:
  assumes "infraEffects g = Inr eff" and "infraEffects g' = Inr eff'"
  shows "effects_delta eff = spec_passiveEffectsForTurn g
     \<and> eff = \<lparr>pFunds = Some (150 * int (count (mset (module_types g)) Miner)),
              pUsers = None,
              pSecurity = Some (int (count (mset (module_types g)) Validator)),
              pHype = Some (int (count (mset (module_types g)) Rpc)),
              pTechLevel = Some 0, pDecentralization = None, pEra = None\<rparr>
     \<and> (mset (module_types g) = mset (module_types g') \<longrightarrow> eff = eff')"
proof -
  note c = infraEffects_counts[OF assms(1)] and c' = infraEffects_counts[OF assms(2)]
  have "mset (module_types g) = mset (module_types g') \<Longrightarrow> eff = eff'"
    by (subst c, subst c') simp
  then show ?thesis
    using infraEffects_spec[OF assms(1)] c by blast
qed

text \<open>
  Miner, miner, validator in slots 0, 1, 2 and validator, miner, miner in slots 4, 7, 11
  both yield 300 funds and 1 security.
\<close>

theorem passive_effects_by_type_witness:
  "infraEffects (infrastructure (handlePurchaseModule (handlePurchaseModule
      (handlePurchaseModule initial_gameState 0 Miner 1) 1 Miner 2) 2 Validator 3))
     = Inr (infraEffects_init\<lparr>pFunds := Some 300, pSecurity := Some 1\<rparr>)
   \<and> infraEffects (infrastructure (handlePurchaseModule (handlePurchaseModule
      (handlePurchaseModule initial_gameState 4 Validator 1) 11 Miner 2) 7 Miner 3))
     = Inr (infraEffects_init\<lparr>pFunds := Some 300, pSecurity := Some 1\<rparr>)
   \<and> spec_passiveEffectsForTurn (infrastructure (handlePurchaseModule (handlePurchaseModule
      (handlePurchaseModule initial_gameState 0 Miner 1) 1 Miner 2) 2 Validator 3))
     = zero_delta\<lparr>dFunds := 300, dSecurity := 1\<rparr>
   \<and> module_types (infrastructure (handlePurchaseModule (handlePurchaseModule
      (handlePurchaseModule initial_gameState 0 Miner 1) 1 Miner 2) 2 Validator 3))
     = [Miner, Miner, Validator]
   \<and> module_types (infrastructure (handlePurchaseModule (handlePurchaseModule
      (handlePurchaseModule initial_gameState 4 Validator 1) 11 Miner 2) 7 Miner 3))
     = [Validator, Miner, Miner]"
  using passive_effects_by_type[OF two_miners_validator validator_two_miners]
  by (simp add: two_miners_validator validator_two_miners two_miners_validator_types
      validator_two_miners_types effects_delta_def absent_0_def infraEffects_init_def
      no_stats_def zero_delta_def)

section \<open>The oracle client\<close>

text \<open>
  A reply that parses as JSON and lacks every required property is a failed call in the
  specification's sense, yet \<^verbatim>\<open>processTurn\<close> hands it back as it is, not the
  fallback.
\<close>

theorem nonconforming_reply_counterexample:
  "spec_oracle_call_fails (Text_JSON (JObject []))
   \<and> processTurn True INITIAL_GRID (Text_JSON (JObject [])) = Inr (JObject [])
   \<and> processTurn True INITIAL_GRID (Text_JSON (JObject [])) \<noteq> Inr fallback"
  by (simp add: processTurn_def hardwareSummary_INITIAL_GRID fallback_def)

text \<open>
  C3, amended. With a session and a summary of the hardware, a call whose message is
  rejected, whose reply has no text, or whose text is not JSON returns the fallback: the
  connection-lost narrative, the single choice Retry, an empty stats update and the event
  type normal. A reply that parses is returned unchecked.
\<close>

theorem processTurn_fallback:
  assumes "hardwareSummary infra = Inr summary"
    and "reply = Send_rejected \<or> reply = No_text \<or> reply = Text_not_JSON"
  shows "processTurn True infra reply = Inr fallback
     \<and> property fallback ''narrative''
         = Some (JString ''Connection lost. The blockchain is congested. Try again.'')
     \<and> property fallback ''choices'' = Some (JArray [JString ''Retry''])
     \<and> property fallback ''stats_update'' = Some (JObject [])
     \<and> property fallback ''event_type'' = Some (JString ''normal'')
     \<and> processTurn True infra (Text_JSON v) = Inr v"
  using assms by (auto simp: processTurn_def fallback_def)

theorem processTurn_fallback_witness:
  "hardwareSummary INITIAL_GRID = Inr ''No hardware installed''
   \<and> processTurn True INITIAL_GRID Send_rejected = Inr fallback
   \<and> processTurn True INITIAL_GRID No_text = Inr fallback
   \<and> processTurn True INITIAL_GRID Text_not_JSON = Inr fallback
   \<and> property fallback ''choices'' = Some (JArray [JString ''Retry''])"
proof -
  note h = hardwareSummary_INITIAL_GRID
  show ?thesis
    using h processTurn_fallback[OF h, of Send_rejected JNull]
      processTurn_fallback[OF h, of No_text JNull]
      processTurn_fallback[OF h, of Text_not_JSON JNull]
    by simp
qed

section \<open>Purchasing a module\<close>

text \<open>
  With funds for it, a validator bought into slot 0, which holds a miner, replaces the
  miner and is paid for; a miner bought into slot 12 of the twelve-slot grid is paid for
  and makes the grid thirteen slots long.
\<close>

theorem purchase_ignores_slot_counterexample:
  "infrastructure (handlePurchaseModule initial_gameState 0 Miner 1) ! 0
      = Item \<lparr>slot_id = 0, module = Some (new_module Miner 1)\<rparr>
   \<and> handlePurchaseModule (handlePurchaseModule initial_gameState 0 Miner 1) 0 Validator 2
      \<noteq> handlePurchaseModule initial_gameState 0 Miner 1
   \<and> funds (stats (handlePurchaseModule initial_gameState 0 Miner 1)) = 8500
   \<and> funds (stats (handlePurchaseModule
        (handlePurchaseModule initial_gameState 0 Miner 1) 0 Validator 2)) = 6500
   \<and> infrastructure (handlePurchaseModule
        (handlePurchaseModule initial_gameState 0 Miner 1) 0 Validator 2) ! 0
      = Item \<lparr>slot_id = 0, module = Some (new_module Validator 2)\<rparr>
   \<and> length (infrastructure initial_gameState) = 12
   \<and> handlePurchaseModule initial_gameState 12 Miner 1 \<noteq> initial_gameState
   \<and> funds (stats (handlePurchaseModule initial_gameState 12 Miner 1)) = 8500
   \<and> length (infrastructure (handlePurchaseModule initial_gameState 12 Miner 1)) = 13"
proof -
  have a: "funds (stats (handlePurchaseModule initial_gameState 0 Miner 1)) = 8500"
    by (simp add: miner_stats)
  have b: "funds (stats (handlePurchaseModule
        (handlePurchaseModule initial_gameState 0 Miner 1) 0 Validator 2)) = 6500"
    by (simp add: handlePurchaseModule_def[of "handlePurchaseModule initial_gameState 0 Miner 1"]
        miner_stats)
  have c: "handlePurchaseModule (handlePurchaseModule initial_gameState 0 Miner 1) 0 Validator 2
      \<noteq> handlePurchaseModule initial_gameState 0 Miner 1"
    using a b by auto
  have d: "infrastructure (handlePurchaseModule
        (handlePurchaseModule initial_gameState 0 Miner 1) 0 Validator 2) ! 0
      = Item \<lparr>slot_id = 0, module = Some (new_module Validator 2)\<rparr>"
    by (simp add: handlePurchaseModule_def[of "handlePurchaseModule initial_gameState 0 Miner 1"]
        miner_stats miner_grid spread_def array_assign_def INITIAL_GRID_slots)
  have e: "funds (stats (handlePurchaseModule initial_gameState 12 Miner 1)) = 8500"
    by (simp add: handlePurchaseModule_def initial_gameState_def INITIAL_STATS_def)
  have f: "funds (stats initial_gameState) = 10000"
    by (simp add: initial_gameState_def INITIAL_STATS_def)
  have g: "handlePurchaseModule initial_gameState 12 Miner 1 \<noteq> initial_gameState"
    using e f by auto
  have h: "length (infrastructure (handlePurchaseModule initial_gameState 12 Miner 1)) = 13"
    by (simp add: handlePurchaseModule_def initial_gameState_def INITIAL_STATS_def
        spread_def array_assign_def INITIAL_GRID_slots)
  have i: "length (infrastructure initial_gameState) = 12"
    by (simp add: initial_gameState_def INITIAL_GRID_slots)
  show ?thesis
    using a b c d e g h i by (simp add: miner_grid)
qed

text \<open>
  C4, amended. A purchase leaves the state as it is exactly when the funds are below the
  cost of the module; neither the range of the slot id nor the content of the slot is
  looked at.
\<close>

theorem purchase_rejected_iff_unaffordable:
  "(handlePurchaseModule gs slotId t now = gs) = (funds (stats gs) < cost (AVAILABLE_MODULES t))"
proof (cases "funds (stats gs) < cost (AVAILABLE_MODULES t)")
  case True
  then show ?thesis by (simp add: handlePurchaseModule_def)
next
  case False
  have pos: "0 < cost (AVAILABLE_MODULES t)" by (cases t) simp_all
  have "funds (stats (handlePurchaseModule gs slotId t now))
          = funds (stats gs) - cost (AVAILABLE_MODULES t)"
    using False by (simp add: handlePurchaseModule_def)
  with pos have "funds (stats (handlePurchaseModule gs slotId t now)) \<noteq> funds (stats gs)"
    by simp
  then have "handlePurchaseModule gs slotId t now \<noteq> gs" by auto
  with False show ?thesis by simp
qed

text \<open>
  C5. A purchase with funds below the cost leaves the whole state unchanged. A purchase
  with funds of at least the cost lowers the funds by exactly the cost, changes no other
  stat and nothing of the state but the stats and the grid, and puts a module of the
  requested type into the target slot.
\<close>

theorem purchase_checks_funds:
  "(funds (stats gs) < cost (AVAILABLE_MODULES t) \<longrightarrow>
      handlePurchaseModule gs slotId t now = gs)
   \<and> (cost (AVAILABLE_MODULES t) \<le> funds (stats gs) \<longrightarrow>
      stats (handlePurchaseModule gs slotId t now)
        = (stats gs)\<lparr>funds := funds (stats gs) - cost (AVAILABLE_MODULES t)\<rparr>
      \<and> handlePurchaseModule gs slotId t now
        = gs\<lparr>stats := stats (handlePurchaseModule gs slotId t now),
               infrastructure := infrastructure (handlePurchaseModule gs slotId t now)\<rparr>
      \<and> moduleType (new_module t now) = t
      \<and> (0 \<le> slotId \<longrightarrow>
           nat slotId < length (infrastructure (handlePurchaseModule gs slotId t now))
           \<and> infrastructure (handlePurchaseModule gs slotId t now) ! nat slotId
               = Item \<lparr>slot_id = slotId, module = Some (new_module t now)\<rparr>))"
proof -
  have ty: "moduleType (new_module t now) = t"
    by (cases t) (simp_all add: new_module_def)
  show ?thesis
    by (simp add: handlePurchaseModule_def array_assign_nth ty)
qed

text \<open>
  With funds 1000 a miner, which costs 1500, is refused and the state stays as it is; with
  funds 10000 it is installed in slot 3 and the funds drop to 8500.
\<close>

theorem purchase_checks_funds_witness:
  "funds (stats (initial_gameState\<lparr>stats := INITIAL_STATS\<lparr>funds := 1000\<rparr>\<rparr>)) = 1000
   \<and> cost (AVAILABLE_MODULES Miner) = 1500
   \<and> handlePurchaseModule (initial_gameState\<lparr>stats := INITIAL_STATS\<lparr>funds := 1000\<rparr>\<rparr>)
        0 Miner 7 = initial_gameState\<lparr>stats := INITIAL_STATS\<lparr>funds := 1000\<rparr>\<rparr>
   \<and> stats (handlePurchaseModule initial_gameState 3 Miner 7) = INITIAL_STATS\<lparr>funds := 8500\<rparr>
   \<and> infrastructure (handlePurchaseModule initial_gameState 3 Miner 7) ! 3
        = Item \<lparr>slot_id = 3, module = Some (new_module Miner 7)\<rparr>"
proof -
  have poor: "funds (stats (initial_gameState\<lparr>stats := INITIAL_STATS\<lparr>funds := 1000\<rparr>\<rparr>))
      < cost (AVAILABLE_MODULES Miner)"
    by simp
  have rich: "cost (AVAILABLE_MODULES Miner) \<le> funds (stats initial_gameState)"
    by (simp add: initial_gameState_def INITIAL_STATS_def)
  have s: "stats initial_gameState = INITIAL_STATS"
    by (simp add: initial_gameState_def)
  show ?thesis
    using poor rich
      purchase_checks_funds[of "initial_gameState\<lparr>stats := INITIAL_STATS\<lparr>funds := 1000\<rparr>\<rparr>"
        Miner 0 7]
      purchase_checks_funds[of initial_gameState Miner 3 7]
    by (simp add: s INITIAL_STATS_def)
qed

section \<open>Starting an era\<close>

text \<open>
  A victory with funds 300 forks into era 2; the oracle opens the era taking 1000 from the
  funds, and the era starts with funds -700, not 300. And of 9007199254740989 users the
  program keeps 900719925474099, one more than the tenth rounded down.
\<close>

theorem fork_counterexample:
  "funds (stats (gameState ((initial_App None)\<lparr>userApiKey := ''key'',
       app_settings := settings initial_gameState,
       gameState := initial_gameState\<lparr>stats := INITIAL_STATS\<lparr>funds := 300\<rparr>,
         gameWon := True\<rparr>\<rparr>))) = 300
   \<and> funds (stats (gameState (handleStartGame
       ((initial_App None)\<lparr>userApiKey := ''key'', app_settings := settings initial_gameState,
          gameState := initial_gameState\<lparr>stats := INITIAL_STATS\<lparr>funds := 300\<rparr>,
            gameWon := True\<rparr>\<rparr>)
       (Some 2) True 0
       (Inr \<lparr>response_narrative = ''era 2'', response_choices = [],
             response_stats_update = no_update\<lparr>funds_change := Some (- 1000)\<rparr>,
             response_event_type = ''normal''\<rparr>)))) = - 700
   \<and> users (startingStats (INITIAL_STATS\<lparr>users := 9007199254740989\<rparr>) (Some 2) True)
       = 900719925474099
   \<and> \<lfloor>real_of_int 9007199254740989 * (1 / 10)\<rfloor> = (900719925474098 :: int)"
proof -
  have "bit_length 32451855365842663671116347316633 = 105"
    by (simp add: bit_length.simps)
  then have f: "floor_times_tenth 9007199254740989 = 900719925474099"
    by (simp add: floor_times_tenth_def round_to_53_bits_def Let_def)
  have g: "\<lfloor>real_of_int 9007199254740989 * (1 / 10)\<rfloor> = (900719925474098 :: int)"
    using floor_tenth[of 9007199254740989] by simp
  show ?thesis
    using g
    by (simp add: f handleStartGame_def handleStartGame_pending_def startingStats_def
        initial_App_def initial_gameState_def INITIAL_STATS_def getEffectiveApiKey_def
        no_update_def Let_def)
qed

text \<open>
  C7, amended. Fork and evolve, as the victory screen calls it, with the next era and the
  stats kept, from a prior era other than -1. The era starts with the users the program
  computes as \<^verbatim>\<open>Math.floor(users * 0.1)\<close>, which for prior users from 0 to
  below 2^52 is a tenth of them rounded down, with security 50, hype 50, techLevel 20 and
  the era raised by 1; its funds are the prior funds plus the funds change of the oracle's
  opening answer, so they are the prior funds while the answer is awaited, when it fails
  and when it names no change. The history is kept and gets one more event, the grid is
  kept.
\<close>

theorem fork_and_evolve:
  assumes "era (stats (gameState app)) + 1 \<noteq> 0"
    and "projectName (app_settings app) \<noteq> []" and "ticker (app_settings app) \<noteq> []"
    and "founderName (app_settings app) \<noteq> []" and "getEffectiveApiKey app \<noteq> []"
  shows "(let prior = gameState app;
              pending = gameState (handleStartGame_pending app (Some (era (stats prior) + 1)) True);
              final = gameState (handleStartGame app (Some (era (stats prior) + 1)) True now result)
          in stats final
               = \<lparr>funds = funds (stats prior)
                    + (case result of Inl e \<Rightarrow> 0
                       | Inr response \<Rightarrow>
                           js_or (funds_change (response_stats_update response)) 0),
                  users = floor_times_tenth (users (stats prior)),
                  security = 50, hype = 50, techLevel = 20,
                  decentralization = decentralization (stats prior),
                  era = era (stats prior) + 1\<rparr>
             \<and> (0 \<le> users (stats prior) \<and> users (stats prior) < 2 ^ 52 \<longrightarrow>
                  users (stats final) = \<lfloor>real_of_int (users (stats prior)) * (1 / 10)\<rfloor>)
             \<and> butlast (history final) = history prior
             \<and> length (history final) = length (history prior) + 1
             \<and> infrastructure final = infrastructure prior
             \<and> stats pending = (stats final)\<lparr>funds := funds (stats prior)\<rparr>
             \<and> history pending = history prior
             \<and> infrastructure pending = infrastructure prior)"
proof -
  let ?prior = "gameState app"
  let ?e = "Some (era (stats ?prior) + 1)"
  let ?pending = "gameState (handleStartGame_pending app ?e True)"
  let ?final = "gameState (handleStartGame app ?e True now result)"
  let ?change = "case result of Inl e \<Rightarrow> 0
     | Inr response \<Rightarrow> js_or (funds_change (response_stats_update response)) 0"
  note start = startingStats_fork[OF assms(1)]
  have p: "stats ?pending = startingStats (stats ?prior) ?e True"
    by (simp add: handleStartGame_pending_def Let_def)
  have "stats ?final = (startingStats (stats ?prior) ?e True)\<lparr>funds :=
      funds (startingStats (stats ?prior) ?e True) + ?change\<rparr>"
    using assms(2-5)
    by (cases result) (simp_all add: handleStartGame_def handleStartGame_pending_def Let_def)
  then have 1: "stats ?final
      = \<lparr>funds = funds (stats ?prior) + ?change,
         users = floor_times_tenth (users (stats ?prior)),
         security = 50, hype = 50, techLevel = 20,
         decentralization = decentralization (stats ?prior),
         era = era (stats ?prior) + 1\<rparr>"
    by (simp only: start) simp
  have 2: "users (stats ?final) = \<lfloor>real_of_int (users (stats ?prior)) * (1 / 10)\<rfloor>"
    if "0 \<le> users (stats ?prior) \<and> users (stats ?prior) < 2 ^ 52"
    using that by (simp add: 1 floor_times_tenth_exact floor_tenth)
  have 3: "butlast (history ?final) = history ?prior"
    and 4: "length (history ?final) = length (history ?prior) + 1"
    and 5: "infrastructure ?final = infrastructure ?prior"
    using assms(2-5)
    by (cases result; simp add: handleStartGame_def handleStartGame_pending_def Let_def)+
  have 6: "stats ?pending = (stats ?final)\<lparr>funds := funds (stats ?prior)\<rparr>"
    by (simp only: p start 1) simp
  have 7: "history ?pending = history ?prior"
    and 8: "infrastructure ?pending = infrastructure ?prior"
    by (simp_all add: handleStartGame_pending_def Let_def)
  show ?thesis
    unfolding Let_def using 1 2 3 4 5 6 7 8 by (intro conjI impI)
qed

text \<open>
  A victory with 2,000,000 users and funds 10000 in era 1 forks into era 2; the oracle
  opens the era with 500 more funds, and the era starts with 200,000 users and funds
  10500.
\<close>

theorem fork_and_evolve_witness:
  "stats (gameState (handleStartGame
      ((initial_App None)\<lparr>userApiKey := ''key'', app_settings := settings initial_gameState,
         gameState := initial_gameState\<lparr>stats := INITIAL_STATS\<lparr>users := 2000000, hype := 95\<rparr>,
           gameWon := True\<rparr>\<rparr>) (Some 2) True 0
      (Inr \<lparr>response_narrative = ''era 2'', response_choices = [],
            response_stats_update = no_update\<lparr>funds_change := Some 500\<rparr>,
            response_event_type = ''normal''\<rparr>)))
     = \<lparr>funds = 10500, users = 200000, security = 50, hype = 50, techLevel = 20,
        decentralization = 0, era = 2\<rparr>"
proof -
  have u: "floor_times_tenth 2000000 = 200000"
    by (simp add: floor_times_tenth_exact)
  show ?thesis
    using fork_and_evolve[where app = "(initial_App None)\<lparr>userApiKey := ''key'',
         app_settings := settings initial_gameState,
         gameState := initial_gameState\<lparr>stats := INITIAL_STATS\<lparr>users := 2000000, hype := 95\<rparr>,
           gameWon := True\<rparr>\<rparr>" and now = 0
         and result = "Inr \<lparr>response_narrative = ''era 2'', response_choices = [],
            response_stats_update = no_update\<lparr>funds_change := Some 500\<rparr>,
            response_event_type = ''normal''\<rparr>"]
    by (simp add: initial_App_def initial_gameState_def INITIAL_STATS_def
        getEffectiveApiKey_def no_update_def Let_def u)
qed

text \<open>
  C9. When the game has been initialised, the stats are the starting stats with the funds
  change of the oracle's answer added to the funds and no bound applied, so that a change
  of c gives the starting funds plus c, negative or not; two answers with the same funds
  change give the same stats, whatever else they hold.
\<close>

theorem init_applies_funds_change_only:
  assumes "projectName (app_settings app) \<noteq> []" and "ticker (app_settings app) \<noteq> []"
    and "founderName (app_settings app) \<noteq> []" and "getEffectiveApiKey app \<noteq> []"
  shows "stats (gameState (handleStartGame app eraOverride keepStats now (Inr response)))
         = (startingStats (stats (gameState app)) eraOverride keepStats)
             \<lparr>funds := funds (startingStats (stats (gameState app)) eraOverride keepStats)
                + js_or (funds_change (response_stats_update response)) 0\<rparr>
     \<and> (funds_change (response_stats_update response) = Some c \<longrightarrow>
          funds (stats (gameState (handleStartGame app eraOverride keepStats now (Inr response))))
          = funds (startingStats (stats (gameState app)) eraOverride keepStats) + c)
     \<and> (funds_change (response_stats_update response')
            = funds_change (response_stats_update response) \<longrightarrow>
          stats (gameState (handleStartGame app eraOverride keepStats now (Inr response')))
          = stats (gameState (handleStartGame app eraOverride keepStats now (Inr response))))"
  using assms by (simp add: handleStartGame_def Let_def)

text \<open>
  A fresh game whose first answer takes 20000 from the funds, adds 500 users and 30
  security starts with funds -10000, one user and security 50.
\<close>

theorem init_applies_funds_change_only_witness:
  "stats (gameState (handleStartGame
      ((initial_App None)\<lparr>userApiKey := ''key'', app_settings := settings initial_gameState\<rparr>)
      None False 0
      (Inr \<lparr>response_narrative = ''genesis'', response_choices = [],
            response_stats_update = no_update\<lparr>funds_change := Some (- 20000),
              users_change := Some 500, security_change := Some 30\<rparr>,
            response_event_type = ''normal''\<rparr>)))
     = \<lparr>funds = - 10000, users = 1, security = 50, hype = 10, techLevel = 10,
        decentralization = 0, era = 1\<rparr>"
  using init_applies_funds_change_only[where
      app = "(initial_App None)\<lparr>userApiKey := ''key'', app_settings := settings initial_gameState\<rparr>"
      and response = "\<lparr>response_narrative = ''genesis'', response_choices = [],
            response_stats_update = no_update\<lparr>funds_change := Some (- 20000),
              users_change := Some 500, security_change := Some 30\<rparr>,
            response_event_type = ''normal''\<rparr>"
      and eraOverride = None and keepStats = False and now = 0 and c = "- 20000"
      and response' = "\<lparr>response_narrative = ''genesis'', response_choices = [],
            response_stats_update = no_update\<lparr>funds_change := Some (- 20000)\<rparr>,
            response_event_type = ''normal''\<rparr>"]
  by (simp add: initial_App_def initial_gameState_def INITIAL_STATS_def getEffectiveApiKey_def
      startingStats_def no_update_def)

section \<open>Loading a saved game\<close>

text \<open>
  C8. With an API key and a chat session that can be created, loading a save that has no
  infrastructure gives the game state of the save with the empty grid of twelve slots,
  numbered 0 to 11 and each without a module; the load does not fail: the setup screen is
  left, the save stays in the storage and no alert is shown.
\<close>

theorem load_without_infrastructure:
  assumes "storage app = Some (Saved parsed)"
    and "saved_infrastructure parsed = None"
    and "getEffectiveApiKey app \<noteq> []"
  shows "gameState (handleLoadGame app True)
         = \<lparr>isStarted = isStarted parsed, isLoading = False, turnCount = turnCount parsed,
            settings = settings parsed, stats = stats parsed, history = history parsed,
            gameOver = gameOver parsed, gameWon = gameWon parsed,
            lastSaved = lastSaved parsed, infrastructure = INITIAL_GRID\<rparr>
     \<and> length INITIAL_GRID = 12
     \<and> (\<forall>i<12. INITIAL_GRID ! i = Item \<lparr>slot_id = int i, module = None\<rparr>)
     \<and> setupMode (handleLoadGame app True) = False
     \<and> storage (handleLoadGame app True) = storage app
     \<and> alerts (handleLoadGame app True) = alerts app"
proof -
  have l: "infrastructure (loaded_state parsed) = INITIAL_GRID"
    using assms(2) by (simp add: loaded_state_def)
  have r: "restoreSession (getEffectiveApiKey app) True INITIAL_GRID = Inr ()"
    using assms(3) by (simp add: restoreSession_def hardwareSummary_INITIAL_GRID)
  have "handleLoadGame app True
        = app\<lparr>setupMode := False, app_settings := settings parsed,
              gameState := (loaded_state parsed)\<lparr>isLoading := False\<rparr>\<rparr>"
    using assms(1,3) by (simp add: handleLoadGame_def Let_def l r)
  then show ?thesis
    using assms(2) by (simp add: loaded_state_def INITIAL_GRID_nth) (simp add: INITIAL_GRID_def)
qed

theorem load_without_infrastructure_witness:
  "gameState (handleLoadGame
      ((initial_App (Some (Saved
          \<lparr>isStarted = True, isLoading = False, turnCount = 3,
           settings = settings initial_gameState, stats = INITIAL_STATS\<lparr>funds := 777\<rparr>,
           history = [], gameOver = False, gameWon = False, lastSaved = Some ''2024'',
           saved_infrastructure = None\<rparr>)))\<lparr>userApiKey := ''key''\<rparr>) True)
     = \<lparr>isStarted = True, isLoading = False, turnCount = 3,
        settings = settings initial_gameState, stats = INITIAL_STATS\<lparr>funds := 777\<rparr>,
        history = [], gameOver = False, gameWon = False, lastSaved = Some ''2024'',
        infrastructure = INITIAL_GRID\<rparr>"
  using load_without_infrastructure[where app = "(initial_App (Some (Saved
          \<lparr>isStarted = True, isLoading = False, turnCount = 3,
           settings = settings initial_gameState, stats = INITIAL_STATS\<lparr>funds := 777\<rparr>,
           history = [], gameOver = False, gameWon = False, lastSaved = Some ''2024'',
           saved_infrastructure = None\<rparr>)))\<lparr>userApiKey := ''key''\<rparr>"
       and parsed = "\<lparr>isStarted = True, isLoading = False, turnCount = 3,
           settings = settings initial_gameState, stats = INITIAL_STATS\<lparr>funds := 777\<rparr>,
           history = [], gameOver = False, gameWon = False, lastSaved = Some ''2024'',
           saved_infrastructure = None\<rparr>"]
  by (simp add: initial_App_def getEffectiveApiKey_def)

end
